theory Spec2Isabelle
  imports Complex_Main
begin

section \<open>Strings\<close>

text \<open>
  A Python \<open>str\<close> is modelled as a \<open>string\<close>: one \<open>char\<close> per character, for the
  characters with code points below 256. \<open>len\<close> is \<open>length\<close>.
\<close>

text \<open>The characters \<open>str.isspace\<close> accepts; \<open>str.strip()\<close> and the pattern \<open>\s\<close> use them.\<close>

definition is_space :: "char \<Rightarrow> bool" where
  "is_space c = List.member
     [CHR 0x09, CHR 0x0A, CHR 0x0B, CHR 0x0C, CHR 0x0D, CHR 0x1C, CHR 0x1D, CHR 0x1E,
      CHR 0x1F, CHR 0x20, CHR 0x85, CHR 0xA0] c"

text \<open>\<open>s.strip(chars)\<close>, with the predicate saying which characters go.\<close>

definition strip_with :: "(char \<Rightarrow> bool) \<Rightarrow> string \<Rightarrow> string" where
  "strip_with p s = rev (dropWhile p (rev (dropWhile p s)))"

definition strip :: "string \<Rightarrow> string" where
  "strip s = strip_with is_space s"

text \<open>\<open>s.replace("Z", "+00:00")\<close>: every occurrence is replaced.\<close>

definition replace_Z :: "string \<Rightarrow> string" where
  "replace_Z s = concat (map (\<lambda>c. if c = CHR ''Z'' then ''+00:00'' else [c]) s)"

text \<open>\<open>s.split(sep)[0]\<close> for a one-character separator: the text before its first occurrence.\<close>

definition split_first :: "char \<Rightarrow> string \<Rightarrow> string" where
  "split_first sep s = takeWhile (\<lambda>c. c \<noteq> sep) s"

text \<open>
  \<open>s.rsplit(".", 1)\<close>: the text before and after the last dot. With no dot the source's
  unpacking into two names raises ValueError.
\<close>

definition rsplit_dot :: "string \<Rightarrow> (string \<times> string) option" where
  "rsplit_dot s =
     (if CHR ''.'' \<in> set s
      then Some (rev (drop 1 (dropWhile (\<lambda>c. c \<noteq> CHR ''.'') (rev s))),
                 rev (takeWhile (\<lambda>c. c \<noteq> CHR ''.'') (rev s)))
      else None)"

text \<open>\<open>sep.join(xs)\<close>.\<close>

fun join :: "string \<Rightarrow> string list \<Rightarrow> string" where
  "join sep [] = []"
| "join sep [x] = x"
| "join sep (x # y # ys) = x @ sep @ join sep (y # ys)"

subsection \<open>Decimal digits\<close>

definition digit_char :: "nat \<Rightarrow> char" where
  "digit_char d = char_of (48 + d)"

definition digit_of :: "char \<Rightarrow> nat option" where
  "digit_of c =
     (let n = (of_char c :: nat) in if 48 \<le> n \<and> n \<le> 57 then Some (n - 48) else None)"

text \<open>A run of ASCII digits read as a number; anything else does not parse.\<close>

fun parse_digits_acc :: "nat \<Rightarrow> string \<Rightarrow> nat option" where
  "parse_digits_acc a [] = Some a"
| "parse_digits_acc a (c # cs) =
     (case digit_of c of None \<Rightarrow> None | Some d \<Rightarrow> parse_digits_acc (10 * a + d) cs)"

definition parse_digits :: "string \<Rightarrow> nat option" where
  "parse_digits s = (if s = [] then None else parse_digits_acc 0 s)"

text \<open>\<open>str(n)\<close> for a natural number, and padding with zeros on the left (\<open>zfill\<close>).\<close>

fun str_nat :: "nat \<Rightarrow> string" where
  "str_nat n = (if n < 10 then [digit_char n] else str_nat (n div 10) @ [digit_char (n mod 10)])"

declare str_nat.simps [simp del]

definition zfill :: "nat \<Rightarrow> string \<Rightarrow> string" where
  "zfill w s = replicate (w - length s) CHR ''0'' @ s"

section \<open>Dates and times\<close>

text \<open>
  \<open>datetime.datetime\<close>: the calendar fields as Python stores them, and the offset from
  UTC in microseconds for an aware value (\<open>None\<close> for a naive one).
\<close>

record datetime =
  year :: nat
  month :: nat
  day :: nat
  hour :: nat
  minute :: nat
  second :: nat
  microsecond :: nat
  tzinfo :: "int option"

datatype pyerr = ValueError | OSError | OverflowError | TypeError | AttributeError

definition is_leap :: "nat \<Rightarrow> bool" where
  "is_leap y = (y mod 4 = 0 \<and> (y mod 400 = 0 \<or> y mod 100 \<noteq> 0))"

definition days_in_month :: "nat \<Rightarrow> nat \<Rightarrow> nat" where
  "days_in_month y m =
     (if m = 2 then (if is_leap y then 29 else 28)
      else if m = 4 \<or> m = 6 \<or> m = 9 \<or> m = 11 then 30 else 31)"

text \<open>The range checks of the \<open>datetime\<close> constructor.\<close>

definition valid_datetime :: "datetime \<Rightarrow> bool" where
  "valid_datetime d =
     (1 \<le> year d \<and> year d \<le> 9999 \<and> 1 \<le> month d \<and> month d \<le> 12 \<and>
      1 \<le> day d \<and> day d \<le> days_in_month (year d) (month d) \<and>
      hour d \<le> 23 \<and> minute d \<le> 59 \<and> second d \<le> 59 \<and> microsecond d \<le> 999999 \<and>
      (case tzinfo d of None \<Rightarrow> True
       | Some off \<Rightarrow> - 86400000000 < off \<and> off < 86400000000))"

text \<open>Days since 1970-01-01 of a civil date, and back (proleptic Gregorian calendar).\<close>

definition days_from_civil :: "int \<Rightarrow> int \<Rightarrow> int \<Rightarrow> int" where
  "days_from_civil y m d =
     (let y' = (if m \<le> 2 then y - 1 else y);
          era = y' div 400;
          yoe = y' mod 400;
          doy = (153 * (if m > 2 then m - 3 else m + 9) + 2) div 5 + d - 1;
          doe = yoe * 365 + yoe div 4 - yoe div 100 + doy
      in era * 146097 + doe - 719468)"

definition civil_from_days :: "int \<Rightarrow> int \<times> int \<times> int" where
  "civil_from_days z0 =
     (let z = z0 + 719468;
          era = z div 146097;
          doe = z mod 146097;
          yoe = (doe - doe div 1460 + doe div 36524 - doe div 146096) div 365;
          y = yoe + era * 400;
          doy = doe - (365 * yoe + yoe div 4 - yoe div 100);
          mp = (5 * doy + 2) div 153;
          d = doy - (153 * mp + 2) div 5 + 1;
          m = (if mp < 10 then mp + 3 else mp - 9)
      in (if m \<le> 2 then y + 1 else y, m, d))"

text \<open>The wall-clock reading in microseconds, and the UTC instant of an aware value.\<close>

definition wall_micros :: "datetime \<Rightarrow> int" where
  "wall_micros d =
     ((days_from_civil (int (year d)) (int (month d)) (int (day d)) * 86400
        + int (hour d) * 3600 + int (minute d) * 60 + int (second d)) * 1000000
      + int (microsecond d))"

text \<open>
  \<open>a < b\<close> on datetimes: two naive values compare by their fields, two aware values by
  their UTC instants, and a naive value against an aware one raises TypeError.
\<close>

definition dt_less :: "datetime \<Rightarrow> datetime \<Rightarrow> pyerr + bool" where
  "dt_less a b =
     (case (tzinfo a, tzinfo b) of
        (None, None) \<Rightarrow> Inr (wall_micros a < wall_micros b)
      | (Some oa, Some ob) \<Rightarrow> Inr (wall_micros a - oa < wall_micros b - ob)
      | _ \<Rightarrow> Inl TypeError)"

text \<open>
  \<open>d - timedelta(days=n)\<close>: calendar arithmetic on the fields; a result before year 1
  raises OverflowError.
\<close>

definition minus_days :: "datetime \<Rightarrow> nat \<Rightarrow> pyerr + datetime" where
  "minus_days d n =
     (case civil_from_days (days_from_civil (int (year d)) (int (month d)) (int (day d)) - int n) of
        (y, m, dd) \<Rightarrow>
          if y < 1 \<or> y > 9999 then Inl OverflowError
          else Inr (d\<lparr>year := nat y, month := nat m, day := nat dd\<rparr>))"

subsection \<open>Formatting\<close>

text \<open>
  \<open>strftime\<close> with the three formats the collector uses. The year is padded to four
  digits, which is what the C library prints for the years from 1000 on.
\<close>

definition pad :: "nat \<Rightarrow> nat \<Rightarrow> string" where
  "pad w n = zfill w (str_nat n)"

definition fmt_date :: "datetime \<Rightarrow> string" where
  \<comment> \<open>\<open>%Y-%m-%d\<close>\<close>
  "fmt_date d = pad 4 (year d) @ ''-'' @ pad 2 (month d) @ ''-'' @ pad 2 (day d)"

definition fmt_minutes :: "datetime \<Rightarrow> string" where
  \<comment> \<open>\<open>%Y-%m-%d %H:%M\<close>\<close>
  "fmt_minutes d = fmt_date d @ '' '' @ pad 2 (hour d) @ '':'' @ pad 2 (minute d)"

definition fmt_state :: "datetime \<Rightarrow> string" where
  \<comment> \<open>\<open>%Y-%m-%dT%H:%M:%S\<close>\<close>
  "fmt_state d =
     fmt_date d @ ''T'' @ pad 2 (hour d) @ '':'' @ pad 2 (minute d) @ '':'' @ pad 2 (second d)"

definition fmt_log :: "datetime \<Rightarrow> string" where
  \<comment> \<open>\<open>%Y-%m-%d %H:%M:%S\<close>\<close>
  "fmt_log d =
     fmt_date d @ '' '' @ pad 2 (hour d) @ '':'' @ pad 2 (minute d) @ '':'' @ pad 2 (second d)"

subsection \<open>Parsing\<close>

text \<open>
  \<open>datetime.fromisoformat\<close>, after the reference implementation of the format
  \<open>YYYY-MM-DD[*HH[:MM[:SS[.fff[fff]]]][+HH:MM[:SS[.ffffff]]]]\<close>, with every number made
  of ASCII digits. \<open>None\<close> is the ValueError. This is the grammar of Python 3.7 to 3.10;
  later versions accept more forms (a basic format without separators, a trailing \<open>Z\<close>)
  and refuse an empty time after the separator. The texts parsed in the properties below
  have the form \<open>YYYY-MM-DDTHH:MM:SS\<close>, with or without \<open>+HH:MM\<close>, which every version
  reads alike.
\<close>

definition two_digits :: "string \<Rightarrow> (nat \<times> string) option" where
  "two_digits s =
     (if length s < 2 then None
      else case parse_digits (take 2 s) of None \<Rightarrow> None | Some n \<Rightarrow> Some (n, drop 2 s))"

definition parse_fraction :: "string \<Rightarrow> nat option" where
  "parse_fraction r =
     (case r of
        [] \<Rightarrow> Some 0
      | c # f \<Rightarrow>
          if c \<noteq> CHR ''.'' then None
          else if length f = 3 then map_option (\<lambda>n. n * 1000) (parse_digits f)
          else if length f = 6 then parse_digits f
          else None)"

definition parse_hh_mm_ss_ff :: "string \<Rightarrow> (nat \<times> nat \<times> nat \<times> nat) option" where
  "parse_hh_mm_ss_ff s =
     (case two_digits s of
        None \<Rightarrow> None
      | Some (hh, r1) \<Rightarrow>
          (case r1 of
             [] \<Rightarrow> Some (hh, 0, 0, 0)
           | c1 # s1 \<Rightarrow>
               if c1 \<noteq> CHR '':'' then None
               else
                 (case two_digits s1 of
                    None \<Rightarrow> None
                  | Some (mm, r2) \<Rightarrow>
                      (case r2 of
                         [] \<Rightarrow> Some (hh, mm, 0, 0)
                       | c2 # s2 \<Rightarrow>
                           if c2 \<noteq> CHR '':'' then None
                           else
                             (case two_digits s2 of
                                None \<Rightarrow> None
                              | Some (ss, r3) \<Rightarrow>
                                  (case parse_fraction r3 of
                                     None \<Rightarrow> None
                                   | Some us \<Rightarrow> Some (hh, mm, ss, us)))))))"

text \<open>The position of the zone sign: the first \<open>-\<close> if there is one, else the first \<open>+\<close>.\<close>

definition tz_pos :: "string \<Rightarrow> nat option" where
  "tz_pos t =
     (if CHR ''-'' \<in> set t then Some (length (takeWhile (\<lambda>c. c \<noteq> CHR ''-'') t))
      else if CHR ''+'' \<in> set t then Some (length (takeWhile (\<lambda>c. c \<noteq> CHR ''+'') t))
      else None)"

definition parse_isoformat_time :: "string \<Rightarrow> ((nat \<times> nat \<times> nat \<times> nat) \<times> int option) option" where
  "parse_isoformat_time t =
     (if length t < 2 then None
      else case tz_pos t of
        None \<Rightarrow> map_option (\<lambda>tc. (tc, None)) (parse_hh_mm_ss_ff t)
      | Some p \<Rightarrow>
          (case parse_hh_mm_ss_ff (take p t) of
             None \<Rightarrow> None
           | Some tc \<Rightarrow>
               (let z = drop (Suc p) t in
                if length z \<noteq> 5 \<and> length z \<noteq> 8 \<and> length z \<noteq> 15 then None
                else case parse_hh_mm_ss_ff z of
                  None \<Rightarrow> None
                | Some (zh, zm, zs, zu) \<Rightarrow>
                    (let off = ((int zh * 3600 + int zm * 60 + int zs) * 1000000 + int zu);
                         sgn = (if t ! p = CHR ''-'' then - 1 else 1)
                     in Some (tc, Some (sgn * off))))))"

definition parse_isoformat_date :: "string \<Rightarrow> (nat \<times> nat \<times> nat) option" where
  "parse_isoformat_date s =
     (if length s \<noteq> 10 \<or> s ! 4 \<noteq> CHR ''-'' \<or> s ! 7 \<noteq> CHR ''-'' then None
      else case (parse_digits (take 4 s), parse_digits (take 2 (drop 5 s)),
                 parse_digits (take 2 (drop 8 s))) of
        (Some y, Some m, Some d) \<Rightarrow> Some (y, m, d)
      | _ \<Rightarrow> None)"

definition fromisoformat :: "string \<Rightarrow> datetime option" where
  "fromisoformat s =
     (case parse_isoformat_date (take 10 s) of
        None \<Rightarrow> None
      | Some (y, m, d) \<Rightarrow>
          (case (if drop 11 s = [] then Some ((0, 0, 0, 0), None)
                 else parse_isoformat_time (drop 11 s)) of
             None \<Rightarrow> None
           | Some ((hh, mm, ss, us), tz) \<Rightarrow>
               (let dt = \<lparr>year = y, month = m, day = d, hour = hh, minute = mm, second = ss,
                          microsecond = us, tzinfo = tz\<rparr>
                in if valid_datetime dt then Some dt else None)))"

section \<open>Values of the cache\<close>

text \<open>
  A value stored in a record of the cache. A float is kept as the rational number it
  denotes; \<open>POther\<close> is a list or a dictionary, with its truth value.
\<close>

datatype pyval = PNone | PBool bool | PInt int | PFloat rat | PStr string | POther bool

fun truthy :: "pyval \<Rightarrow> bool" where
  "truthy PNone = False"
| "truthy (PBool b) = b"
| "truthy (PInt i) = (i \<noteq> 0)"
| "truthy (PFloat r) = (r \<noteq> 0)"
| "truthy (PStr s) = (s \<noteq> [])"
| "truthy (POther b) = b"

text \<open>
  A meeting of the cache: the dictionary itself, read by \<open>get_updated_at\<close>, and what the
  accessors of the reader library return for it. The library is not part of the collector,
  so each accessor is a field of the record. The title and the identifier are strings. The
  date, the notes, the summary and the transcript may be \<open>None\<close>. The participants are a
  list of values, empty when the accessor returns nothing; its items need not be strings.
\<close>

record meeting =
  get :: "string \<rightharpoonup> pyval"
  get_meeting_title :: string
  get_meeting_id :: string
  get_meeting_date :: "datetime option"
  get_participants :: "pyval list"
  get_notes :: "string option"
  get_summary :: "string option"
  get_transcript :: "string option"
  has_content :: bool

section \<open>The timestamp resolver\<close>

definition round_half_even :: "rat \<Rightarrow> int" where
  "round_half_even x =
     (let f = \<lfloor>x\<rfloor>; d = x - of_int f
      in if d < 1 / 2 then f else if 1 / 2 < d then f + 1 else if even f then f else f + 1)"

text \<open>
  \<open>datetime.fromtimestamp\<close>: local time for a count of seconds since the epoch, rounded to
  microseconds. \<open>tz\<close> is the local zone's offset from UTC in seconds, taken as fixed
  (no daylight saving). A count outside the
  platform's \<open>time_t\<close> raises OverflowError, a year outside 1..9999 ValueError.
\<close>

definition fromtimestamp :: "int \<Rightarrow> rat \<Rightarrow> pyerr + datetime" where
  "fromtimestamp tz x =
     (let us = round_half_even (x * 1000000);
          secs = us div 1000000
      in if secs < - (2 ^ 63) \<or> 2 ^ 63 \<le> secs then Inl OverflowError
         else
           (let loc = secs + tz; sod = loc mod 86400
            in case civil_from_days (loc div 86400) of
                 (y, m, d) \<Rightarrow>
                   if y < 1 \<or> 9999 < y then Inl ValueError
                   else Inr \<lparr>year = nat y, month = nat m, day = nat d,
                             hour = nat (sod div 3600), minute = nat (sod mod 3600 div 60),
                             second = nat (sod mod 60), microsecond = nat (us mod 1000000),
                             tzinfo = None\<rparr>))"

text \<open>
  The numeric branch: a value above \<open>1e12\<close> is in milliseconds. The division is exact
  here; the source divides floating-point numbers, which can differ in the last microsecond.
\<close>

definition from_number :: "int \<Rightarrow> rat \<Rightarrow> pyerr + datetime" where
  "from_number tz v = fromtimestamp tz (if 1000000000000 < v then v / 1000 else v)"

text \<open>The textual branch, up to the call of \<open>fromisoformat\<close>.\<close>

definition clean_text :: "string \<Rightarrow> string" where
  "clean_text v =
     (let clean = replace_Z v
      in if CHR ''.'' \<in> set clean then split_first CHR ''.'' (split_first CHR ''+'' clean)
         else clean)"

text \<open>
  One candidate value inside the \<open>try\<close> block: the instant it gives, \<open>Inr None\<close> when
  the block ends without returning, or the error raised.
\<close>

definition convert :: "int \<Rightarrow> pyval \<Rightarrow> pyerr + datetime option" where
  "convert tz val =
     (case val of
        PBool b \<Rightarrow> map_sum id Some (from_number tz (if b then 1 else 0))
      | PInt i \<Rightarrow> map_sum id Some (from_number tz (of_int i))
      | PFloat r \<Rightarrow> map_sum id Some (from_number tz r)
      | PStr s \<Rightarrow>
          (case fromisoformat (clean_text s) of
             None \<Rightarrow> Inl ValueError
           | Some d \<Rightarrow> Inr (Some d))
      | _ \<Rightarrow> Inr None)"

text \<open>
  The loop of \<open>get_updated_at\<close> over the candidate fields. ValueError and OSError are
  caught and lead to the next field; any other error leaves the function.
\<close>

fun resolve :: "int \<Rightarrow> (string \<rightharpoonup> pyval) \<Rightarrow> string list \<Rightarrow> pyerr + datetime option" where
  "resolve tz m [] = Inr None"
| "resolve tz m (f # fs) =
     (case m f of
        None \<Rightarrow> resolve tz m fs
      | Some val \<Rightarrow>
          if \<not> truthy val then resolve tz m fs
          else
            (case convert tz val of
               Inl ValueError \<Rightarrow> resolve tz m fs
             | Inl OSError \<Rightarrow> resolve tz m fs
             | Inl e \<Rightarrow> Inl e
             | Inr None \<Rightarrow> resolve tz m fs
             | Inr (Some d) \<Rightarrow> Inr (Some d)))"

definition get_updated_at :: "int \<Rightarrow> meeting \<Rightarrow> pyerr + datetime option" where
  "get_updated_at tz meeting =
     resolve tz (get meeting) [''updated_at'', ''created_at'', ''createdAt'']"

section \<open>File names\<close>

definition illegal_char :: "char \<Rightarrow> bool" where
  "illegal_char c = List.member
     [CHR ''<'', CHR ''>'', CHR '':'', CHR 0x22, CHR ''/'', CHR 0x5C, CHR ''|'', CHR ''?'',
      CHR ''*''] c"

text \<open>\<open>re.sub(p+, "-", s)\<close> for a class \<open>p\<close> of characters: each maximal run becomes one hyphen.\<close>

fun sub_runs :: "(char \<Rightarrow> bool) \<Rightarrow> string \<Rightarrow> string" where
  "sub_runs p [] = []"
| "sub_runs p [c] = (if p c then ''-'' else [c])"
| "sub_runs p (c # d # cs) =
     (if p c then (if p d then sub_runs p (d # cs) else CHR ''-'' # sub_runs p (d # cs))
      else c # sub_runs p (d # cs))"

definition lower_char :: "char \<Rightarrow> char" where
  "lower_char c =
     (let n = (of_char c :: nat)
      in if (65 \<le> n \<and> n \<le> 90) \<or> (192 \<le> n \<and> n \<le> 222 \<and> n \<noteq> 215) then char_of (n + 32)
         else c)"

definition slugify :: "string \<Rightarrow> string" where
  "slugify title =
     (let slug = filter (\<lambda>c. \<not> illegal_char c) title;
          slug = map lower_char (sub_runs is_space (strip slug));
          slug = strip_with (\<lambda>c. c = CHR ''-'') (sub_runs (\<lambda>c. c = CHR ''-'') slug)
      in if slug = [] then ''untitled'' else take 80 slug)"

definition inbox_filename :: "meeting \<Rightarrow> string" where
  "inbox_filename meeting =
     (let date_str = (case get_meeting_date meeting of
                        None \<Rightarrow> ''undated'' | Some date \<Rightarrow> fmt_date date);
          slug = slugify (get_meeting_title meeting)
      in ''granola-'' @ date_str @ ''-'' @ slug @ ''.md'')"

text \<open>
  The name a record is written under, given the names used so far in the run
  (lines 187 to 191 of the collector).
\<close>

definition dedup_name :: "string set \<Rightarrow> meeting \<Rightarrow> pyerr + string" where
  "dedup_name seen_filenames meeting =
     (let fname = inbox_filename meeting
      in if fname \<in> seen_filenames
         then (case rsplit_dot fname of
                 None \<Rightarrow> Inl ValueError
               | Some (base, ext) \<Rightarrow>
                   Inr (base @ ''-'' @ take 8 (get_meeting_id meeting) @ ''.'' @ ext))
         else Inr fname)"

section \<open>The content formatter\<close>

definition TRANSCRIPT_CAP :: nat where
  "TRANSCRIPT_CAP = 5000"

definition nl :: string where
  "nl = [CHR 0x0A]"

definition truncation_marker :: string where
  "truncation_marker = nl @ nl @ ''[... transcript truncated]''"

text \<open>The last entry of \<open>lines\<close> (lines 124 to 129 of the collector).\<close>

definition transcript_section :: "string option \<Rightarrow> string" where
  "transcript_section transcript =
     (case transcript of
        None \<Rightarrow> ''No transcript available''
      | Some t \<Rightarrow>
          if t \<noteq> [] \<and> strip t \<noteq> []
          then (if TRANSCRIPT_CAP < length t then take TRANSCRIPT_CAP t @ truncation_marker else t)
          else ''No transcript available'')"

text \<open>\<open>sep.join(xs)\<close> on a list of values: an item that is not a string raises TypeError.\<close>

fun strings_of :: "pyval list \<Rightarrow> string list option" where
  "strings_of [] = Some []"
| "strings_of (PStr s # xs) = map_option ((#) s) (strings_of xs)"
| "strings_of (_ # xs) = None"

definition join_values :: "string \<Rightarrow> pyval list \<Rightarrow> pyerr + string" where
  "join_values sep xs =
     (case strings_of xs of None \<Rightarrow> Inl TypeError | Some ss \<Rightarrow> Inr (join sep ss))"

text \<open>
  The list \<open>lines\<close> as it is built before the transcript is looked at (lines 104 to 122
  of the collector). Joining the participants comes first and raises TypeError on an item
  that is not a string; \<open>notes.strip()\<close> and \<open>summary.strip()\<close> raise AttributeError on
  \<open>None\<close>.
\<close>

definition head_lines :: "meeting \<Rightarrow> pyerr + string list" where
  "head_lines meeting =
     (let date_str = (case get_meeting_date meeting of
                        None \<Rightarrow> ''Unknown'' | Some date \<Rightarrow> fmt_minutes date)
      in case (if get_participants meeting = [] then Inr ''Unknown''
               else join_values '', '' (get_participants meeting)) of
           Inl e \<Rightarrow> Inl e
         | Inr participants_str \<Rightarrow>
             (case get_notes meeting of
                None \<Rightarrow> Inl AttributeError
              | Some notes \<Rightarrow>
                  (case get_summary meeting of
                     None \<Rightarrow> Inl AttributeError
                   | Some summary \<Rightarrow>
                       Inr [''# Meeting: '' @ get_meeting_title meeting,
                            [],
                            ''**Date**: '' @ date_str,
                            ''**Participants**: '' @ participants_str,
                            ''**Source**: granola'',
                            ''**Meeting ID**: '' @ get_meeting_id meeting,
                            [],
                            ''## Notes'',
                            (if strip notes \<noteq> [] then notes else ''No notes available''),
                            [],
                            ''## Summary'',
                            (if strip summary \<noteq> [] then summary
                             else ''No summary available''),
                            [],
                            ''## Transcript Highlights''])))"

text \<open>The transcript section is appended, and the lines are joined (lines 124 to 131).\<close>

definition format_inbox_file :: "meeting \<Rightarrow> pyerr + string" where
  "format_inbox_file meeting =
     (case head_lines meeting of
        Inl e \<Rightarrow> Inl e
      | Inr lines \<Rightarrow>
          Inr (join nl (lines @ [transcript_section (get_transcript meeting)]) @ nl))"

section \<open>The world of a run\<close>

text \<open>
  The messages the collector logs, kept structured: the text of each is an f-string over
  the values held here.
\<close>

datatype message =
    MsgInvalidState string   \<comment> \<open>Invalid state file content: ..., using first-run cutoff\<close>
  | MsgProcessing datetime   \<comment> \<open>Processing meetings updated since ...\<close>
  | MsgWrote nat             \<comment> \<open>Wrote ... inbox file(s)\<close>
  | MsgWarning string        \<comment> \<open>Warning: ...\<close>
  | MsgLoadError string      \<comment> \<open>Error loading Granola cache: ...\<close>
  | MsgBusy                  \<comment> \<open>Another instance is running, skipping\<close>

text \<open>What a run does to the file system, in the order it does it.\<close>

datatype io_event =
    LogLine string message   \<comment> \<open>a line appended to the log: its time stamp and message\<close>
  | WriteDoc string string   \<comment> \<open>a document written to the inbox: name and content\<close>
  | WriteState string        \<comment> \<open>the state file overwritten with this text\<close>

text \<open>What \<open>load_cache\<close> does: it raises FileNotFoundError, or another exception, or
  returns a state from which \<open>extract_meetings\<close> lists the meetings.\<close>

datatype cache_load = CacheAbsent string | CacheFailure string | Loaded "meeting list"

text \<open>
  The world: the clock (\<open>clock w n\<close> is what the \<open>n\<close>-th call of \<open>datetime.now()\<close>
  returns, \<open>ticks\<close> counts the calls made), the local zone, the files, the names under
  which a write to the inbox fails, and the lock.
\<close>

record world =
  clock :: "nat \<Rightarrow> datetime"
  ticks :: nat
  tz :: int
  cache :: cache_load
  state_file :: "string option"
  inbox :: "string \<rightharpoonup> string"
  unwritable :: "string \<Rightarrow> bool"
  events :: "io_event list"
  lock_busy :: bool
  lock_held :: bool

definition now :: "world \<Rightarrow> datetime \<times> world" where
  "now w = (clock w (ticks w), w\<lparr>ticks := Suc (ticks w)\<rparr>)"

definition log :: "message \<Rightarrow> world \<Rightarrow> world" where
  "log msg w =
     (case now w of (ts, w') \<Rightarrow> w'\<lparr>events := events w' @ [LogLine (fmt_log ts) msg]\<rparr>)"

section \<open>The watermark\<close>

definition first_run_cutoff :: "world \<Rightarrow> (pyerr + datetime) \<times> world" where
  "first_run_cutoff w = (case now w of (t, w') \<Rightarrow> (minus_days t 30, w'))"

definition get_cutoff :: "world \<Rightarrow> (pyerr + datetime) \<times> world" where
  "get_cutoff w =
     (case state_file w of
        Some text \<Rightarrow>
          (let raw = strip text
           in case fromisoformat raw of
                Some d \<Rightarrow> (Inr d, w)
              | None \<Rightarrow> first_run_cutoff (log (MsgInvalidState raw) w))
      | None \<Rightarrow> first_run_cutoff w)"

text \<open>Line 202: the state file is overwritten with the clock's reading at that moment.\<close>

definition commit_state :: "world \<Rightarrow> world" where
  "commit_state w =
     (case now w of
        (t, w') \<Rightarrow> w'\<lparr>state_file := Some (fmt_state t),
                       events := events w' @ [WriteState (fmt_state t)]\<rparr>)"

section \<open>The ingestion driver\<close>

definition write_text :: "string \<Rightarrow> string \<Rightarrow> world \<Rightarrow> pyerr + world" where
  "write_text fname content w =
     (if unwritable w fname then Inl OSError
      else Inr (w\<lparr>inbox := (inbox w)(fname \<mapsto> content),
                  events := events w @ [WriteDoc fname content]\<rparr>))"

text \<open>
  The loop of \<open>_run\<close> over the meetings (lines 179 to 197), started with the names seen
  and the count of documents written so far; it returns both as they are after the last
  meeting. An error raised in the body ends the loop.
\<close>

fun process ::
  "datetime \<Rightarrow> meeting list \<Rightarrow> string set \<Rightarrow> nat \<Rightarrow> world \<Rightarrow> (pyerr + string set \<times> nat) \<times> world"
where
  "process cutoff [] seen_filenames written w = (Inr (seen_filenames, written), w)"
| "process cutoff (meeting # meetings) seen_filenames written w =
     (if \<not> has_content meeting then process cutoff meetings seen_filenames written w
      else
        (case get_updated_at (tz w) meeting of
           Inl e \<Rightarrow> (Inl e, w)
         | Inr None \<Rightarrow> process cutoff meetings seen_filenames written w
         | Inr (Some updated) \<Rightarrow>
             (case dt_less updated cutoff of
                Inl e \<Rightarrow> (Inl e, w)
              | Inr True \<Rightarrow> process cutoff meetings seen_filenames written w
              | Inr False \<Rightarrow>
                  (case dedup_name seen_filenames meeting of
                     Inl e \<Rightarrow> (Inl e, w)
                   | Inr fname \<Rightarrow>
                       (case format_inbox_file meeting of
                          Inl e \<Rightarrow> (Inl e, w)
                        | Inr content \<Rightarrow>
                            (case write_text fname content w of
                               Inl e \<Rightarrow> (Inl e, w)
                             | Inr w' \<Rightarrow>
                                 process cutoff meetings (insert fname seen_filenames)
                                   (Suc written) w'))))))"

text \<open>\<open>_run\<close>: the exit status, or the error that leaves it.\<close>

definition run :: "world \<Rightarrow> (pyerr + int) \<times> world" where
  "run w =
     (case cache w of
        CacheAbsent e \<Rightarrow> (Inr 0, log (MsgWarning e) w)
      | CacheFailure e \<Rightarrow> (Inr 1, log (MsgLoadError e) w)
      | Loaded meetings \<Rightarrow>
          (case get_cutoff w of
             (Inl e, w1) \<Rightarrow> (Inl e, w1)
           | (Inr cutoff, w1) \<Rightarrow>
               (case process cutoff meetings {} 0 (log (MsgProcessing cutoff) w1) of
                  (Inl e, w2) \<Rightarrow> (Inl e, w2)
                | (Inr (seen_filenames, written), w2) \<Rightarrow>
                    (Inr 0, commit_state (log (MsgWrote written) w2)))))"

text \<open>\<open>main\<close>: the lock around \<open>_run\<close>, released on every path out of it.\<close>

definition main :: "world \<Rightarrow> (pyerr + int) \<times> world" where
  "main w =
     (if lock_busy w then (Inr 0, log MsgBusy w)
      else case run (w\<lparr>lock_held := True\<rparr>) of (r, w') \<Rightarrow> (r, w'\<lparr>lock_held := False\<rparr>))"

section \<open>Example records and worlds\<close>

text \<open>A meeting with no date, no participants, no transcript, and empty notes and summary.\<close>

definition blank_meeting :: meeting where
  "blank_meeting = \<lparr>get = Map.empty, get_meeting_title = [], get_meeting_id = [],
     get_meeting_date = None, get_participants = [], get_notes = Some [],
     get_summary = Some [],
     get_transcript = None, has_content = True\<rparr>"

text \<open>A clock that starts on 2024-05-01 at 12:00:00.25 and advances one second per reading.\<close>

definition start_time :: datetime where
  "start_time = \<lparr>year = 2024, month = 5, day = 1, hour = 12, minute = 0, second = 0,
     microsecond = 250000, tzinfo = None\<rparr>"

definition ticking :: "nat \<Rightarrow> datetime" where
  "ticking n = start_time\<lparr>second := min n 59\<rparr>"

text \<open>A world with a loaded, empty cache, no state file and an empty inbox.\<close>

definition world0 :: world where
  "world0 = \<lparr>clock = ticking, ticks = 0, tz = 0, cache = Loaded [], state_file = None,
     inbox = Map.empty, unwritable = (\<lambda>_. False), events = [], lock_busy = False,
     lock_held = False\<rparr>"

text \<open>The lines the formatter builds for the blank meeting, before the transcript section.\<close>

definition blank_head :: "string list" where
  "blank_head =
     [''# Meeting: '', [], ''**Date**: Unknown'', ''**Participants**: Unknown'',
      ''**Source**: granola'', ''**Meeting ID**: '', [], ''## Notes'', ''No notes available'',
      [], ''## Summary'', ''No summary available'', [], ''## Transcript Highlights'']"

text \<open>
  A meeting with content whose only time stamp is an ISO string ending in \<open>Z\<close>, without
  fractional seconds, and the same meeting with a fraction of a second.
\<close>

definition zulu_meeting :: meeting where
  "zulu_meeting = blank_meeting
     \<lparr>get := [''updated_at'' \<mapsto> PStr ''2024-05-01T10:00:00Z''],
      get_meeting_title := ''Weekly sync'', get_meeting_id := ''0a1b2c3d-0001'',
      get_notes := Some ''Agreed on the plan.''\<rparr>"

definition zulu_fraction_meeting :: meeting where
  "zulu_fraction_meeting = zulu_meeting
     \<lparr>get := [''updated_at'' \<mapsto> PStr ''2024-05-01T10:00:00.123Z'']\<rparr>"

definition ten_o_clock :: datetime where
  "ten_o_clock = \<lparr>year = 2024, month = 5, day = 1, hour = 10, minute = 0, second = 0,
     microsecond = 0, tzinfo = None\<rparr>"

text \<open>A first run over a cache that holds this one meeting.\<close>

definition zulu_world :: world where
  "zulu_world = world0\<lparr>cache := Loaded [zulu_meeting]\<rparr>"

text \<open>The names of the documents a run wrote, in the order of the writes.\<close>

fun written_names :: "io_event list \<Rightarrow> string list" where
  "written_names [] = []"
| "written_names (WriteDoc fname content # es) = fname # written_names es"
| "written_names (_ # es) = written_names es"

text \<open>
  Three meetings with the same title and no date, selected on a first run, whose
  identifiers differ only after their first eight characters.
\<close>

definition twin :: "string \<Rightarrow> meeting" where
  "twin ident = zulu_fraction_meeting\<lparr>get_meeting_title := ''sync'', get_meeting_id := ident\<rparr>"

definition twin_world :: world where
  "twin_world =
     world0\<lparr>cache := Loaded [twin ''abcdefgh-1'', twin ''abcdefgh-2'', twin ''abcdefgh-3'']\<rparr>"

text \<open>The events that overwrite the state file.\<close>

fun is_commit :: "io_event \<Rightarrow> bool" where
  "is_commit (WriteState text) = True"
| "is_commit _ = False"

text \<open>The run over the three meetings when the inbox refuses the first name.\<close>

definition stuck_world :: world where
  "stuck_world = twin_world\<lparr>unwritable := (\<lambda>fname. fname = ''granola-undated-sync.md'')\<rparr>"


section \<open>Properties of the timestamp resolver\<close>



section \<open>Properties of the content formatter\<close>

lemma strip_Nil [simp]: "strip [] = []"
  by (simp add: strip_def strip_with_def)

lemma strings_of_Nil: "strings_of xs = Some [] \<longleftrightarrow> xs = []"
proof (cases xs)
  case Nil
  then show ?thesis by simp
next
  case (Cons x ys)
  then show ?thesis by (cases x) simp_all
qed

lemma blank_section:
  "strip t = [] \<Longrightarrow> transcript_section (Some t) = ''No transcript available''"
  by (simp add: transcript_section_def)

lemma head_lines_blank: "head_lines (blank_meeting\<lparr>get_transcript := x\<rparr>) = Inr blank_head"
  by (simp add: head_lines_def blank_meeting_def blank_head_def)




text \<open>
  Against claim C8 as stated: a transcript of exactly 5000 spaces has the length of the cap,
  and the document does not contain it; the section reads \<open>No transcript available\<close>.
\<close>

theorem blank_transcript_at_cap_is_dropped:
  "length (replicate 5000 CHR '' '') = TRANSCRIPT_CAP
   \<and> transcript_section (Some (replicate 5000 CHR '' '')) = ''No transcript available''"
  by (simp add: TRANSCRIPT_CAP_def transcript_section_def strip_def strip_with_def is_space_def)

text \<open>
  Claim C8, amended. Whenever the formatter gets as far as the transcript (the lines before
  it raised nothing), the document is those lines followed by one more: the line
  \<open>No transcript available\<close> for a blank transcript of any length; otherwise the
  transcript unchanged when it has at most 5000 characters, and beyond that its first 5000
  characters followed by the truncation marker.
\<close>

theorem transcript_truncation_boundary:
  assumes "get_transcript m = Some t" and "head_lines m = Inr ls"
  shows "format_inbox_file m =
     Inr (join nl (ls @
       [if strip t = [] then ''No transcript available''
        else if length t \<le> TRANSCRIPT_CAP then t
        else take TRANSCRIPT_CAP t @ truncation_marker]) @ nl)"
proof (cases "strip t = []")
  case True
  then show ?thesis
    by (simp add: format_inbox_file_def assms blank_section)
next
  case False
  then have "t \<noteq> []" by auto
  with False show ?thesis
    by (simp add: format_inbox_file_def assms transcript_section_def)
qed

theorem transcript_truncation_boundary_witness:
  "format_inbox_file (blank_meeting\<lparr>get_transcript := Some (replicate 5000 CHR ''a'')\<rparr>) =
     Inr (join nl (blank_head @ [replicate 5000 CHR ''a'']) @ nl)
   \<and> format_inbox_file (blank_meeting\<lparr>get_transcript := Some (replicate 5001 CHR ''a'')\<rparr>) =
     Inr (join nl (blank_head @ [replicate 5000 CHR ''a'' @ truncation_marker]) @ nl)
   \<and> format_inbox_file (blank_meeting\<lparr>get_transcript := Some (replicate 5001 CHR '' '')\<rparr>) =
     Inr (join nl (blank_head @ [''No transcript available'']) @ nl)"
proof -
  have a: "strip (replicate 5000 CHR ''a'') \<noteq> []"
    by (simp add: strip_def strip_with_def is_space_def)
  have b: "strip (replicate 5001 CHR ''a'') \<noteq> []"
    by (simp add: strip_def strip_with_def is_space_def)
  have c: "strip (replicate 5001 CHR '' '') = []"
    by (simp add: strip_def strip_with_def is_space_def)
  show ?thesis
    using transcript_truncation_boundary
            [of "blank_meeting\<lparr>get_transcript := Some (replicate 5000 CHR ''a'')\<rparr>"
                "replicate 5000 CHR ''a''" blank_head, OF _ head_lines_blank]
      transcript_truncation_boundary
            [of "blank_meeting\<lparr>get_transcript := Some (replicate 5001 CHR ''a'')\<rparr>"
                "replicate 5001 CHR ''a''" blank_head, OF _ head_lines_blank]
      transcript_truncation_boundary
            [of "blank_meeting\<lparr>get_transcript := Some (replicate 5001 CHR '' '')\<rparr>"
                "replicate 5001 CHR '' ''" blank_head, OF _ head_lines_blank]
    by (simp add: TRANSCRIPT_CAP_def a b c)
qed

section \<open>Properties of the watermark\<close>

subsection \<open>Digits written and read back\<close>

lemma of_char_digit_char: "d < 10 \<Longrightarrow> (of_char (digit_char d) :: nat) = 48 + d"
  by (simp add: digit_char_def)

lemma digit_of_digit_char [simp]: "d < 10 \<Longrightarrow> digit_of (digit_char d) = Some d"
  by (simp add: digit_of_def of_char_digit_char)

lemma digit_char_neq:
  assumes "d < 10" and "(of_char c :: nat) < 48 \<or> 57 < (of_char c :: nat)"
  shows "digit_char d \<noteq> c"
proof
  assume "digit_char d = c"
  then have "(of_char c :: nat) = 48 + d" using of_char_digit_char[OF assms(1)] by simp
  with assms show False by auto
qed

lemma digit_char_not_special [simp]:
  assumes "d < 10"
  shows "digit_char d \<noteq> CHR ''-''" and "digit_char d \<noteq> CHR ''+''"
    and "\<not> is_space (digit_char d)"
proof -
  show "digit_char d \<noteq> CHR ''-''" by (rule digit_char_neq[OF assms]) simp
  show "digit_char d \<noteq> CHR ''+''" by (rule digit_char_neq[OF assms]) simp
  have "digit_char d \<noteq> c" if "is_space c" for c
    by (rule digit_char_neq[OF assms]) (use that in \<open>auto simp add: is_space_def\<close>)
  then show "\<not> is_space (digit_char d)" by blast
qed

lemma digit_char_0: "digit_char 0 = CHR ''0''"
proof -
  have "(of_char (digit_char 0) :: nat) = of_char CHR ''0''"
    by (simp add: of_char_digit_char)
  then show ?thesis by (simp only: of_char_eq_iff)
qed

lemma str_nat_small: "n < 10 \<Longrightarrow> str_nat n = [digit_char n]"
  by (subst str_nat.simps) simp

lemma str_nat_step: "10 \<le> n \<Longrightarrow> str_nat n = str_nat (n div 10) @ [digit_char (n mod 10)]"
  by (subst str_nat.simps) simp

lemma pad2: "n < 100 \<Longrightarrow> pad 2 n = [digit_char (n div 10), digit_char (n mod 10)]"
proof (cases "n < 10")
  case True
  then show ?thesis by (simp add: pad_def zfill_def str_nat_small digit_char_0)
next
  case False
  assume "n < 100"
  with False have "n div 10 < 10" "10 \<le> n" by auto
  then show ?thesis by (simp add: pad_def zfill_def str_nat_step str_nat_small)
qed

lemma pad4:
  assumes "1000 \<le> n" and "n \<le> 9999"
  shows "pad 4 n = [digit_char (n div 1000), digit_char (n div 100 mod 10),
              digit_char (n div 10 mod 10), digit_char (n mod 10)]"
proof -
  have d: "n div 10 div 10 = n div 100" "n div 100 div 10 = n div 1000"
    by (simp_all add: div_mult2_eq[symmetric])
  have s3: "str_nat (n div 1000) = [digit_char (n div 1000)]"
    using assms by (intro str_nat_small) auto
  have s2: "str_nat (n div 100) = str_nat (n div 1000) @ [digit_char (n div 100 mod 10)]"
    using assms str_nat_step[of "n div 100"] by (simp add: d)
  have s1: "str_nat (n div 10) = str_nat (n div 100) @ [digit_char (n div 10 mod 10)]"
    using assms str_nat_step[of "n div 10"] by (simp add: d)
  have s0: "str_nat n = str_nat (n div 10) @ [digit_char (n mod 10)]"
    using assms str_nat_step[of n] by simp
  show ?thesis by (simp add: pad_def zfill_def s0 s1 s2 s3)
qed

lemma parse2 [simp]:
  "a < 10 \<Longrightarrow> b < 10 \<Longrightarrow> parse_digits [digit_char a, digit_char b] = Some (10 * a + b)"
  by (simp add: parse_digits_def)

lemma parse4 [simp]:
  "a < 10 \<Longrightarrow> b < 10 \<Longrightarrow> c < 10 \<Longrightarrow> d < 10 \<Longrightarrow>
   parse_digits [digit_char a, digit_char b, digit_char c, digit_char d]
     = Some (10 * (10 * (10 * a + b) + c) + d)"
  by (simp add: parse_digits_def)

lemma fmt_state_chars:
  assumes "valid_datetime t" and "1000 \<le> year t"
  shows "fmt_state t =
    [digit_char (year t div 1000), digit_char (year t div 100 mod 10),
     digit_char (year t div 10 mod 10), digit_char (year t mod 10), CHR ''-'',
     digit_char (month t div 10), digit_char (month t mod 10), CHR ''-'',
     digit_char (day t div 10), digit_char (day t mod 10), CHR ''T'',
     digit_char (hour t div 10), digit_char (hour t mod 10), CHR '':'',
     digit_char (minute t div 10), digit_char (minute t mod 10), CHR '':'',
     digit_char (second t div 10), digit_char (second t mod 10)]"
proof -
  have "day t \<le> 31"
    using assms(1) by (auto simp add: valid_datetime_def days_in_month_def split: if_splits)
  then show ?thesis
    using assms by (simp add: fmt_state_def fmt_date_def pad2 pad4 valid_datetime_def)
qed

lemma strip_fmt_state:
  assumes "valid_datetime t" and "1000 \<le> year t"
  shows "strip (fmt_state t) = fmt_state t"
proof -
  have "year t div 1000 < 10" "second t mod 10 < 10"
    using assms by (auto simp add: valid_datetime_def)
  then show ?thesis
    by (simp add: fmt_state_chars[OF assms] strip_def strip_with_def)
qed

lemma datetime_ranges:
  assumes "valid_datetime t"
  shows "year t \<le> 9999" "month t \<le> 12" "day t \<le> 31" "hour t \<le> 23" "minute t \<le> 59"
    "second t \<le> 59"
  using assms by (auto simp add: valid_datetime_def days_in_month_def split: if_splits)

lemma four_digits:
  "1000 * (y div 1000) + 100 * (y div 100 mod 10) + 10 * (y div 10 mod 10) + y mod 10 = (y::nat)"
proof -
  have a: "y = 10 * (y div 10) + y mod 10" by simp
  have b: "y div 10 = 10 * (y div 100) + y div 10 mod 10"
    using mult_div_mod_eq[of 10 "y div 10"] by (simp add: div_mult2_eq[symmetric])
  have c: "y div 100 = 10 * (y div 1000) + y div 100 mod 10"
    using mult_div_mod_eq[of 10 "y div 100"] by (simp add: div_mult2_eq[symmetric])
  show ?thesis using a b c by linarith
qed

lemma date_part:
  assumes "valid_datetime t" and "1000 \<le> year t"
  shows "parse_isoformat_date (take 10 (fmt_state t)) = Some (year t, month t, day t)"
  using datetime_ranges[OF assms(1)]
  by (simp add: fmt_state_chars[OF assms] parse_isoformat_date_def four_digits)

lemma special_not_digit_char [simp]:
  assumes "d < 10"
  shows "CHR ''-'' \<noteq> digit_char d" and "CHR ''+'' \<noteq> digit_char d"
  using digit_char_not_special(1,2)[OF assms] by auto

lemma time_part:
  assumes "valid_datetime t" and "1000 \<le> year t"
  shows "parse_isoformat_time (drop 11 (fmt_state t))
      = Some ((hour t, minute t, second t, 0), None)"
  using datetime_ranges[OF assms(1)]
  by (simp add: fmt_state_chars[OF assms] parse_isoformat_time_def tz_pos_def
        parse_hh_mm_ss_ff_def two_digits_def parse_fraction_def)

lemma fromisoformat_fmt_state:
  assumes "valid_datetime t" and "1000 \<le> year t"
  shows "fromisoformat (fmt_state t) = Some (t\<lparr>microsecond := 0, tzinfo := None\<rparr>)"
proof -
  have v: "valid_datetime (t\<lparr>microsecond := 0, tzinfo := None\<rparr>)"
    using assms(1) by (simp add: valid_datetime_def)
  have ne: "drop 11 (fmt_state t) \<noteq> []"
    by (simp add: fmt_state_chars[OF assms])
  have eq: "\<lparr>year = year t, month = month t, day = day t, hour = hour t, minute = minute t,
      second = second t, microsecond = 0, tzinfo = None\<rparr> = t\<lparr>microsecond := 0, tzinfo := None\<rparr>"
    by simp
  show ?thesis
    unfolding fromisoformat_def date_part[OF assms] time_part[OF assms]
    using v ne by (simp add: eq)
qed

text \<open>
  Claim C10. Committing the watermark and loading it again returns the committed instant
  with its microseconds dropped: the text written is the one the loader parses, so the
  fallback for malformed content is not taken and nothing is logged. The instant is a
  reading of the clock, a valid naive datetime of year 1000 or later.
\<close>

theorem commit_then_load_round_trip:
  assumes "valid_datetime (clock w (ticks w))" and "1000 \<le> year (clock w (ticks w))"
  shows "state_file (commit_state w) = Some (fmt_state (clock w (ticks w)))
    \<and> get_cutoff (commit_state w)
        = (Inr ((clock w (ticks w))\<lparr>microsecond := 0, tzinfo := None\<rparr>), commit_state w)"
  using strip_fmt_state[OF assms] fromisoformat_fmt_state[OF assms]
  by (simp add: commit_state_def now_def get_cutoff_def Let_def)

theorem commit_then_load_round_trip_witness:
  "get_cutoff (commit_state world0)
     = (Inr \<lparr>year = 2024, month = 5, day = 1, hour = 12, minute = 0, second = 0,
             microsecond = 0, tzinfo = None\<rparr>, commit_state world0)"
proof -
  have a: "valid_datetime (clock world0 (ticks world0))"
    by (simp add: world0_def ticking_def start_time_def valid_datetime_def days_in_month_def)
  have b: "1000 \<le> year (clock world0 (ticks world0))"
    by (simp add: world0_def ticking_def start_time_def)
  show ?thesis
    using commit_then_load_round_trip[OF a b]
    by (simp add: world0_def ticking_def start_time_def)
qed

section \<open>Offset-aware time stamps\<close>

lemmas parse_defs = fromisoformat_def parse_isoformat_date_def parse_digits_def digit_of_def
  parse_isoformat_time_def tz_pos_def parse_hh_mm_ss_ff_def two_digits_def parse_fraction_def
  valid_datetime_def days_in_month_def is_leap_def

lemma zulu_text:
  "fromisoformat (clean_text ''2024-05-01T10:00:00Z'') = Some (ten_o_clock\<lparr>tzinfo := Some 0\<rparr>)"
  by (simp add: clean_text_def replace_Z_def split_first_def parse_defs ten_o_clock_def)

lemma zulu_fraction_text:
  "fromisoformat (clean_text ''2024-05-01T10:00:00.123Z'') = Some ten_o_clock"
  by (simp add: clean_text_def replace_Z_def split_first_def parse_defs ten_o_clock_def)

text \<open>
  Claim C5. The resolver is to parse a textual value as a naive time stamp, after
  normalising a trailing \<open>Z\<close> and stripping the fraction of a second. The collector strips
  the offset only together with a fraction: for \<open>2024-05-01T10:00:00Z\<close> it returns a
  time stamp that carries the offset \<open>+00:00\<close>, and a naive one only for
  \<open>2024-05-01T10:00:00.123Z\<close>.
\<close>

theorem zulu_without_fraction_resolves_aware:
  "get_updated_at z zulu_meeting = Inr (Some (ten_o_clock\<lparr>tzinfo := Some 0\<rparr>))
   \<and> get_updated_at z zulu_fraction_meeting = Inr (Some ten_o_clock)"
  by (simp add: get_updated_at_def zulu_meeting_def zulu_fraction_meeting_def blank_meeting_def
      convert_def zulu_text zulu_fraction_text)

section \<open>Properties of the ingestion driver\<close>

lemma days_from_civil_example: "days_from_civil 2024 5 1 = 19844"
  by (simp add: days_from_civil_def)

lemma civil_from_days_example: "civil_from_days 19814 = (2024, 4, 1)"
  unfolding civil_from_days_def Let_def by simp

lemma cutoff0: "minus_days start_time 30 = Inr (start_time\<lparr>month := 4, day := 1\<rparr>)"
  by (simp add: minus_days_def start_time_def days_from_civil_example civil_from_days_example)

lemma get_cutoff_first_run:
  assumes "state_file w = None" "clock w (ticks w) = start_time"
  shows "get_cutoff w =
    (Inr (start_time\<lparr>month := 4, day := 1\<rparr>), w\<lparr>ticks := Suc (ticks w)\<rparr>)"
  using assms by (simp add: get_cutoff_def first_run_cutoff_def now_def cutoff0)

lemma zulu_has_content: "has_content zulu_meeting"
  by (simp add: zulu_meeting_def blank_meeting_def)

lemma zulu_updated:
  "get_updated_at z zulu_meeting = Inr (Some (ten_o_clock\<lparr>tzinfo := Some 0\<rparr>))"
  by (simp add: get_updated_at_def zulu_meeting_def blank_meeting_def convert_def zulu_text)

lemma process_zulu:
  assumes "tzinfo cutoff = None"
  shows "process cutoff (zulu_meeting # ms) S n w = (Inl TypeError, w)"
proof -
  have "dt_less (ten_o_clock\<lparr>tzinfo := Some 0\<rparr>) cutoff = Inl TypeError"
    using assms by (simp add: dt_less_def)
  then show ?thesis
    by (simp add: zulu_has_content zulu_updated)
qed

lemma run_zulu:
  assumes "cache w = Loaded (zulu_meeting # ms)" "state_file w = None"
    "clock w (ticks w) = start_time"
  shows "run w = (Inl TypeError,
           log (MsgProcessing (start_time\<lparr>month := 4, day := 1\<rparr>))
             (w\<lparr>ticks := Suc (ticks w)\<rparr>))"
proof -
  have n: "tzinfo start_time = None" by (simp add: start_time_def)
  show ?thesis
    using assms(1)
    by (simp add: run_def get_cutoff_first_run[OF assms(2,3)] process_zulu n
        del: process.simps)
qed

lemma log_keeps_files:
  "state_file (log m w) = state_file w" "inbox (log m w) = inbox w"
  "lock_held (log m w) = lock_held w"
  by (simp_all add: log_def now_def)

text \<open>
  Claim C1. Selecting a record is never to fail the run, for each representation of its
  time stamp. On a first run over a cache whose one meeting has content and the time stamp
  \<open>2024-05-01T10:00:00Z\<close>, the comparison of the offset-aware time stamp with the naive
  cutoff raises TypeError: the error leaves \<open>_run\<close> and \<open>main\<close>, no document is
  written and no watermark is committed.
\<close>

theorem zulu_record_fails_the_run:
  "fst (run zulu_world) = Inl TypeError
   \<and> fst (main zulu_world) = Inl TypeError
   \<and> state_file (snd (main zulu_world)) = None
   \<and> inbox (snd (main zulu_world)) = Map.empty"
proof -
  have s: "cache zulu_world = Loaded [zulu_meeting]" "state_file zulu_world = None"
    "clock zulu_world (ticks zulu_world) = start_time" "inbox zulu_world = Map.empty"
    "\<not> lock_busy zulu_world"
    by (simp_all add: zulu_world_def world0_def ticking_def start_time_def)
  have r: "run zulu_world = (Inl TypeError,
      log (MsgProcessing (start_time\<lparr>month := 4, day := 1\<rparr>))
        (zulu_world\<lparr>ticks := Suc (ticks zulu_world)\<rparr>))"
    using s(1-3) by (rule run_zulu)
  have r': "run (zulu_world\<lparr>lock_held := True\<rparr>) = (Inl TypeError,
      log (MsgProcessing (start_time\<lparr>month := 4, day := 1\<rparr>))
        (zulu_world\<lparr>lock_held := True, ticks := Suc (ticks zulu_world)\<rparr>))"
    using run_zulu[of "zulu_world\<lparr>lock_held := True\<rparr>" "[]"] s(1-3) by simp
  show ?thesis
    by (simp add: r main_def s r' log_keeps_files)
qed

section \<open>File names within a run\<close>

lemma process_step:
  assumes "has_content m" "get_updated_at (tz w) m = Inr (Some u)" "dt_less u cutoff = Inr False"
    "dedup_name S m = Inr f" "format_inbox_file m = Inr c" "\<not> unwritable w f"
  shows "process cutoff (m # ms) S n w =
     process cutoff ms (insert f S) (Suc n)
       (w\<lparr>inbox := (inbox w)(f \<mapsto> c), events := events w @ [WriteDoc f c]\<rparr>)"
  using assms by (simp add: write_text_def)

lemma written_names_append [simp]:
  "written_names (xs @ ys) = written_names xs @ written_names ys"
  by (induction xs rule: written_names.induct) simp_all

lemma twin_name: "inbox_filename (twin i) = ''granola-undated-sync.md''"
  by (simp add: inbox_filename_def twin_def zulu_fraction_meeting_def zulu_meeting_def
      blank_meeting_def slugify_def illegal_char_def strip_def strip_with_def is_space_def
      lower_char_def Let_def)

lemma suffixed_name:
  "rsplit_dot ''granola-undated-sync.md'' = Some (''granola-undated-sync'', ''md'')"
  by (simp add: rsplit_dot_def)

lemma twin_dedup:
  "dedup_name {} (twin i) = Inr ''granola-undated-sync.md''"
  "dedup_name {''granola-undated-sync.md''} (twin ''abcdefgh-2'')
     = Inr ''granola-undated-sync-abcdefgh.md''"
  "dedup_name {''granola-undated-sync-abcdefgh.md'', ''granola-undated-sync.md''}
     (twin ''abcdefgh-3'') = Inr ''granola-undated-sync-abcdefgh.md''"
  by (simp_all add: dedup_name_def twin_name suffixed_name) (simp_all add: twin_def)

lemma twin_selected:
  "has_content (twin i)"
  "get_updated_at z (twin i) = Inr (Some ten_o_clock)"
  by (simp_all add: twin_def zulu_fraction_meeting_def zulu_meeting_def blank_meeting_def
      get_updated_at_def convert_def zulu_fraction_text)

lemma ten_o_clock_not_before_cutoff:
  "dt_less ten_o_clock (start_time\<lparr>month := 4, day := 1\<rparr>) = Inr False"
  by (simp add: dt_less_def wall_micros_def ten_o_clock_def start_time_def days_from_civil_def)

lemma format_ok:
  assumes "strings_of (get_participants m) = Some ps" "get_notes m = Some a"
    "get_summary m = Some b"
  shows "\<exists>c. format_inbox_file m = Inr c"
proof -
  have "get_participants m = [] \<longleftrightarrow> ps = []"
    using assms(1) strings_of_Nil[of "get_participants m"] by auto
  then show ?thesis
    by (simp add: format_inbox_file_def head_lines_def join_values_def assms)
qed

lemma twin_format: "\<exists>c. format_inbox_file (twin i) = Inr c"
  by (rule format_ok[of _ "[]"])
    (simp_all add: twin_def zulu_fraction_meeting_def zulu_meeting_def blank_meeting_def)

lemma log_fields:
  "tz (log m w) = tz w" "unwritable (log m w) = unwritable w"
  "written_names (events (log m w)) = written_names (events w)"
  by (simp_all add: log_def now_def)

lemma commit_state_names:
  "written_names (events (commit_state w)) = written_names (events w)"
  by (simp add: commit_state_def now_def)

text \<open>
  Claim C6. Every name written in a run is to be unique in the run. The collector tests the
  generated name against the names seen, but not the name it makes by adding the first
  eight characters of the identifier: with three selected meetings of the same title whose
  identifiers begin alike, the second and the third are written under the same name, and
  the third document replaces the second.
\<close>

theorem suffixed_names_collide:
  "fst (run twin_world) = Inr 0
   \<and> written_names (events (snd (run twin_world))) =
       [''granola-undated-sync.md'', ''granola-undated-sync-abcdefgh.md'',
        ''granola-undated-sync-abcdefgh.md'']"
proof -
  let ?cut = "start_time\<lparr>month := 4, day := 1\<rparr>"
  let ?n = "''granola-undated-sync.md''"
  let ?s = "''granola-undated-sync-abcdefgh.md''"
  obtain c1 c2 c3 where c: "format_inbox_file (twin ''abcdefgh-1'') = Inr c1"
    "format_inbox_file (twin ''abcdefgh-2'') = Inr c2"
    "format_inbox_file (twin ''abcdefgh-3'') = Inr c3"
    using twin_format by blast
  have s: "cache twin_world =
      Loaded [twin ''abcdefgh-1'', twin ''abcdefgh-2'', twin ''abcdefgh-3'']"
    "state_file twin_world = None" "clock twin_world (ticks twin_world) = start_time"
    "events twin_world = []" "unwritable twin_world = (\<lambda>_. False)"
    by (simp_all add: twin_world_def world0_def ticking_def start_time_def)
  define w1 where "w1 = log (MsgProcessing ?cut) (twin_world\<lparr>ticks := Suc (ticks twin_world)\<rparr>)"
  define w2 where "w2 = w1\<lparr>inbox := (inbox w1)(?n \<mapsto> c1), events := events w1 @ [WriteDoc ?n c1]\<rparr>"
  define w3 where "w3 = w2\<lparr>inbox := (inbox w2)(?s \<mapsto> c2), events := events w2 @ [WriteDoc ?s c2]\<rparr>"
  define w4 where "w4 = w3\<lparr>inbox := (inbox w3)(?s \<mapsto> c3), events := events w3 @ [WriteDoc ?s c3]\<rparr>"
  have u: "\<not> unwritable w1 f" "\<not> unwritable w2 f" "\<not> unwritable w3 f" for f
    by (simp_all add: w3_def w2_def w1_def log_fields s)
  have p1: "process ?cut [twin ''abcdefgh-1'', twin ''abcdefgh-2'', twin ''abcdefgh-3''] {} 0 w1
      = process ?cut [twin ''abcdefgh-2'', twin ''abcdefgh-3''] {?n} (Suc 0) w2"
    unfolding w2_def
    by (rule process_step[OF twin_selected ten_o_clock_not_before_cutoff twin_dedup(1) c(1) u(1)])
  have p2: "process ?cut [twin ''abcdefgh-2'', twin ''abcdefgh-3''] {?n} (Suc 0) w2
      = process ?cut [twin ''abcdefgh-3''] {?s, ?n} (Suc (Suc 0)) w3"
    unfolding w3_def
    by (rule process_step[OF twin_selected ten_o_clock_not_before_cutoff twin_dedup(2) c(2) u(2)])
  have p3: "process ?cut [twin ''abcdefgh-3''] {?s, ?n} (Suc (Suc 0)) w3
      = process ?cut [] (insert ?s {?s, ?n}) (Suc (Suc (Suc 0))) w4"
    unfolding w4_def
    by (rule process_step[OF twin_selected ten_o_clock_not_before_cutoff twin_dedup(3) c(3) u(3)])
  have p: "process ?cut [twin ''abcdefgh-1'', twin ''abcdefgh-2'', twin ''abcdefgh-3''] {} 0 w1
      = (Inr ({?s, ?n}, Suc (Suc (Suc 0))), w4)"
    unfolding p1 p2 p3 by simp
  have r: "run twin_world = (Inr 0, commit_state (log (MsgWrote (Suc (Suc (Suc 0)))) w4))"
    by (simp only: run_def s(1) get_cutoff_first_run[OF s(2,3)] p[unfolded w1_def]
        cache_load.case prod.case sum.case)
  have n: "written_names (events w4) = [?n, ?s, ?s]"
    by (simp add: w4_def w3_def w2_def w1_def log_fields s)
  show ?thesis
    unfolding r by (simp add: commit_state_names log_fields n)
qed

section \<open>A document write that fails\<close>

lemma process_append:
  "process cutoff (xs @ ys) S n w =
     (case process cutoff xs S n w of
        (Inl e, w') \<Rightarrow> (Inl e, w')
      | (Inr (S', n'), w') \<Rightarrow> process cutoff ys S' n' w')"
proof (induction xs arbitrary: S n w)
  case Nil
  then show ?case by simp
next
  case (Cons m ms)
  show ?case
    by (simp add: Cons.IH split: sum.split option.split bool.split)
qed

lemma process_keeps:
  "state_file (snd (process cutoff ms S n w)) = state_file w
   \<and> ticks (snd (process cutoff ms S n w)) = ticks w
   \<and> clock (snd (process cutoff ms S n w)) = clock w
   \<and> lock_held (snd (process cutoff ms S n w)) = lock_held w
   \<and> filter is_commit (events (snd (process cutoff ms S n w))) = filter is_commit (events w)"
proof (induction ms arbitrary: S n w)
  case Nil
  then show ?case by simp
next
  case (Cons m ms)
  show ?case
    by (simp add: Cons.IH write_text_def split: sum.split option.split bool.split)
qed

lemma log_clock:
  "ticks (log m w) = Suc (ticks w)" "clock (log m w) = clock w"
  "filter is_commit (events (log m w)) = filter is_commit (events w)"
  "events (log m w) = events w @ [LogLine (fmt_log (clock w (ticks w))) m]"
  by (simp_all add: log_def now_def)

lemma get_cutoff_keeps:
  "state_file (snd (get_cutoff w)) = state_file w
   \<and> clock (snd (get_cutoff w)) = clock w
   \<and> ticks w \<le> ticks (snd (get_cutoff w))
   \<and> filter is_commit (events (snd (get_cutoff w))) = filter is_commit (events w)"
  by (simp add: get_cutoff_def first_run_cutoff_def now_def log_clock log_keeps_files Let_def
      split: option.split)

lemma process_write_fails:
  assumes "has_content m" "get_updated_at (tz w) m = Inr (Some u)" "dt_less u cutoff = Inr False"
    "dedup_name S m = Inr f" "format_inbox_file m = Inr c" "unwritable w f"
  shows "process cutoff (m # ms) S n w = (Inl OSError, w)"
  using assms by (simp add: write_text_def)

lemma stuck_world_fields:
  "cache stuck_world = Loaded [twin ''abcdefgh-1'', twin ''abcdefgh-2'', twin ''abcdefgh-3'']"
  "state_file stuck_world = None" "clock stuck_world = ticking" "ticks stuck_world = 0"
  "events stuck_world = []" "inbox stuck_world = Map.empty"
  "unwritable stuck_world ''granola-undated-sync.md''" "\<not> lock_busy stuck_world"
  by (simp_all add: stuck_world_def twin_world_def world0_def)

lemma ticking_0: "ticking 0 = start_time"
  by (simp add: ticking_def start_time_def)

text \<open>
  Against claim C3 as stated: when the inbox refuses the first document of the run over
  the three meetings, OSError leaves \<open>_run\<close>. The only event of the run is the log line
  written before the loop: the failure is not logged, the two other meetings are not
  written, and the state file is not written.
\<close>

theorem failed_write_is_not_survived:
  "fst (run stuck_world) = Inl OSError
   \<and> events (snd (run stuck_world)) =
       [LogLine (fmt_log (ticking 1)) (MsgProcessing (start_time\<lparr>month := 4, day := 1\<rparr>))]
   \<and> state_file (snd (run stuck_world)) = None
   \<and> inbox (snd (run stuck_world)) = Map.empty"
proof -
  let ?cut = "start_time\<lparr>month := 4, day := 1\<rparr>"
  obtain c1 where c: "format_inbox_file (twin ''abcdefgh-1'') = Inr c1"
    using twin_format by blast
  have t: "clock stuck_world (ticks stuck_world) = start_time"
    by (simp add: stuck_world_fields ticking_0)
  define w1 where
    "w1 = log (MsgProcessing ?cut) (stuck_world\<lparr>ticks := Suc (ticks stuck_world)\<rparr>)"
  have u: "unwritable w1 ''granola-undated-sync.md''"
    by (simp add: w1_def log_fields stuck_world_fields)
  have p: "process ?cut [twin ''abcdefgh-1'', twin ''abcdefgh-2'', twin ''abcdefgh-3''] {} 0 w1
      = (Inl OSError, w1)"
    by (rule process_write_fails
          [OF twin_selected ten_o_clock_not_before_cutoff twin_dedup(1) c u])
  have r: "run stuck_world = (Inl OSError, w1)"
    by (simp only: run_def stuck_world_fields(1) get_cutoff_first_run[OF stuck_world_fields(2) t]
        p[unfolded w1_def] w1_def cache_load.case prod.case sum.case)
  show ?thesis
    unfolding r by (simp add: w1_def log_clock log_keeps_files stuck_world_fields)
qed

text \<open>
  Claim C3, amended. A document write that fails is not handled. Let the loop have
  processed the meetings \<open>pre\<close> without error, and let the write for the next selected
  meeting fail. Then OSError leaves \<open>_run\<close> and \<open>main\<close> in the world as it was at the
  failure, with the lock released by \<open>main\<close>: nothing is logged for the failure, the
  meetings \<open>post\<close> after it are not processed, the documents written for \<open>pre\<close> stay,
  and the watermark is not committed.
\<close>

theorem failed_write_ends_the_run:
  assumes "\<not> lock_busy w0" and "w = w0\<lparr>lock_held := True\<rparr>"
    and "cache w = Loaded (pre @ m # post)"
    and "get_cutoff w = (Inr cutoff, w1)"
    and "process cutoff pre {} 0 (log (MsgProcessing cutoff) w1) = (Inr (S, n), w2)"
    and "has_content m" and "get_updated_at (tz w2) m = Inr (Some u)"
    and "dt_less u cutoff = Inr False"
    and "dedup_name S m = Inr f" and "format_inbox_file m = Inr c" and "unwritable w2 f"
  shows "run w = (Inl OSError, w2) \<and> main w0 = (Inl OSError, w2\<lparr>lock_held := False\<rparr>)
     \<and> state_file w2 = state_file w0
     \<and> filter is_commit (events w2) = filter is_commit (events w0)"
proof -
  have step: "process cutoff (m # post) S n w2 = (Inl OSError, w2)"
    using assms(6-11) by (rule process_write_fails)
  have loop: "process cutoff (pre @ m # post) {} 0 (log (MsgProcessing cutoff) w1)
      = (Inl OSError, w2)"
    unfolding process_append assms(5) using step by simp
  have r: "run w = (Inl OSError, w2)"
    by (simp add: run_def assms(3,4) loop del: process.simps)
  have m: "main w0 = (Inl OSError, w2\<lparr>lock_held := False\<rparr>)"
    using assms(1) r by (simp add: main_def assms(2)[symmetric])
  have k1: "state_file w1 = state_file w
      \<and> filter is_commit (events w1) = filter is_commit (events w)"
    using get_cutoff_keeps[of w] by (simp add: assms(4))
  have k2: "state_file w2 = state_file (log (MsgProcessing cutoff) w1)
      \<and> filter is_commit (events w2) = filter is_commit (events (log (MsgProcessing cutoff) w1))"
    using process_keeps[of cutoff pre "{}" 0 "log (MsgProcessing cutoff) w1"]
    by (simp add: assms(5))
  have k: "state_file w2 = state_file w0
      \<and> filter is_commit (events w2) = filter is_commit (events w0)"
    using k1 k2 by (simp add: log_clock log_keeps_files assms(2))
  from r m k show ?thesis by blast
qed

theorem failed_write_ends_the_run_witness:
  "fst (main stuck_world) = Inl OSError
   \<and> state_file (snd (main stuck_world)) = None
   \<and> \<not> lock_held (snd (main stuck_world))"
proof -
  let ?cut = "start_time\<lparr>month := 4, day := 1\<rparr>"
  let ?w = "stuck_world\<lparr>lock_held := True\<rparr>"
  let ?w1 = "?w\<lparr>ticks := Suc (ticks ?w)\<rparr>"
  let ?w2 = "log (MsgProcessing ?cut) ?w1"
  obtain c1 where c: "format_inbox_file (twin ''abcdefgh-1'') = Inr c1"
    using twin_format by blast
  have a: "cache ?w = Loaded ([] @ twin ''abcdefgh-1'' # [twin ''abcdefgh-2'', twin ''abcdefgh-3''])"
    by (simp add: stuck_world_fields)
  have s: "state_file ?w = None" "clock ?w (ticks ?w) = start_time"
    by (simp_all add: stuck_world_fields ticking_0)
  have g: "get_cutoff ?w = (Inr ?cut, ?w1)"
    by (rule get_cutoff_first_run[OF s])
  have p: "process ?cut [] {} 0 ?w2 = (Inr ({}, 0), ?w2)"
    by simp
  have u: "unwritable ?w2 ''granola-undated-sync.md''"
    by (simp add: log_fields stuck_world_fields)
  from failed_write_ends_the_run
         [OF stuck_world_fields(8) refl a g p twin_selected ten_o_clock_not_before_cutoff
             twin_dedup(1) c u]
  have "main stuck_world = (Inl OSError, ?w2\<lparr>lock_held := False\<rparr>)"
    and "state_file ?w2 = state_file stuck_world"
    by blast+
  then show ?thesis
    by (simp add: stuck_world_fields)
qed

section \<open>The commit of the watermark\<close>








section \<open>Loading the watermark\<close>

subsection \<open>Thirty days before a date\<close>





subsection \<open>The default cutoff\<close>






end
